theory Spec2Isabelle
  imports Complex_Main
begin

section \<open>Route classification (src/frontend/src/lib/auth-pages.ts)\<close>

text \<open>
  A TypeScript \<open>string | null\<close> is a \<open>string option\<close>, \<open>None\<close> being \<open>null\<close>.
  \<open>AUTH_PUBLIC_PATHS\<close> is the constant array of the source, in its order.
\<close>

definition AUTH_PUBLIC_PATHS :: "string list" where
  "AUTH_PUBLIC_PATHS = [''/login'', ''/register'', ''/setup'']"

text \<open>
  \<open>!pathname\<close> holds for \<open>null\<close> and for the empty string; \<open>Array.prototype.includes\<close>
  on an array of strings is membership by string equality.
\<close>

definition isAuthPublicPath :: "string option \<Rightarrow> bool" where
  "isAuthPublicPath pathname =
     (case pathname of
        None \<Rightarrow> False
      | Some s \<Rightarrow> if s = [] then False else s \<in> set AUTH_PUBLIC_PATHS)"

section \<open>The route gate (LayoutContent)\<close>

text \<open>
  The rendered tree. \<open>Children c\<close> is the opaque page body handed to the component,
  \<open>Fragment\<close> is \<open><>...</>\<close>, \<open>AppProvider t\<close> carries the \<open>token\<close> prop
  (\<open>None\<close> is \<open>undefined\<close>), \<open>Html tag cls\<close> is an intrinsic element with its
  \<open>className\<close>. The component's two hooks, \<open>usePathname()\<close> and \<open>useAuth()\<close>, are
  not part of these sources: \<open>LayoutContent\<close> takes the path and the token they return as
  arguments.
\<close>

datatype 'a node =
    Children 'a
  | Fragment "'a node list"
  | AppProvider "string option" "'a node list"
  | Sidebar
  | Html string string "'a node list"

text \<open>\<open>token || undefined\<close>: a \<open>null\<close> or empty token becomes \<open>undefined\<close>.\<close>

definition orUndefined :: "string option \<Rightarrow> string option" where
  "orUndefined token =
     (case token of None \<Rightarrow> None | Some t \<Rightarrow> if t = [] then None else Some t)"

definition LayoutContent :: "string option \<Rightarrow> string option \<Rightarrow> 'a \<Rightarrow> 'a node" where
  "LayoutContent pathname token children =
     (let isAuthPage = isAuthPublicPath pathname in
      if isAuthPage then Fragment [Children children]
      else
        AppProvider (orUndefined token)
          [Html ''div'' ''flex h-screen bg-background relative''
             [Sidebar,
              Html ''main'' ''flex-1 flex flex-col overflow-hidden bg-background''
                [Children children]]])"

text \<open>Observers of a rendered tree: the application contexts and the sidebars in it.\<close>

fun providers :: "'a node \<Rightarrow> string option list" where
  "providers (Children c) = []"
| "providers (Fragment ns) = concat (map providers ns)"
| "providers (AppProvider t ns) = t # concat (map providers ns)"
| "providers Sidebar = []"
| "providers (Html tag cls ns) = concat (map providers ns)"

fun sidebars :: "'a node \<Rightarrow> nat" where
  "sidebars (Children c) = 0"
| "sidebars (Fragment ns) = sum_list (map sidebars ns)"
| "sidebars (AppProvider t ns) = sum_list (map sidebars ns)"
| "sidebars Sidebar = 1"
| "sidebars (Html tag cls ns) = sum_list (map sidebars ns)"

section \<open>The setup-status probe (src/frontend/src/hooks/use-setup-status.ts)\<close>

subsection \<open>JavaScript values and truthiness\<close>

text \<open>
  The values \<open>response.json()\<close> can resolve to, with \<open>undefined\<close> for a property that
  is not there. A Number is \<open>NaN\<close>, an infinity (\<open>True\<close> for the negative one) or finite
  with its real value, so that both zeros are \<open>Finite 0\<close>. An object is the list of its
  own properties, each key once.
\<close>

datatype jsnumber = NaN | Infinity bool | Finite real

datatype jsvalue =
    JUndefined
  | JNull
  | JBool bool
  | JNumber jsnumber
  | JString string
  | JArray "jsvalue list"
  | JObject "(string \<times> jsvalue) list"

text \<open>
  \<open>Boolean(v)\<close> is the language's ToBoolean: false for \<open>undefined\<close>, \<open>null\<close>, \<open>false\<close>,
  the zeros, \<open>NaN\<close> and the empty string, true for everything else (every object and
  array included).
\<close>

fun Boolean :: "jsvalue \<Rightarrow> bool" where
  "Boolean JUndefined = False"
| "Boolean JNull = False"
| "Boolean (JBool b) = b"
| "Boolean (JNumber NaN) = False"
| "Boolean (JNumber (Infinity s)) = True"
| "Boolean (JNumber (Finite r)) = (r \<noteq> 0)"
| "Boolean (JString s) = (s \<noteq> [])"
| "Boolean (JArray vs) = True"
| "Boolean (JObject kvs) = True"

text \<open>
  \<open>data.key\<close> for the three keys the probe reads (\<open>needs_setup\<close>, \<open>initialized\<close>,
  \<open>registration_enabled\<close>), none of which is a property of a built-in prototype:
  on \<open>undefined\<close> and \<open>null\<close> the access throws a TypeError (\<open>None\<close>), on an object it is
  the own property or \<open>undefined\<close>, on every other value it is \<open>undefined\<close>.
\<close>

fun getProperty :: "jsvalue \<Rightarrow> string \<Rightarrow> jsvalue option" where
  "getProperty JUndefined key = None"
| "getProperty JNull key = None"
| "getProperty (JObject kvs) key =
     Some (case map_of kvs key of None \<Rightarrow> JUndefined | Some v \<Rightarrow> v)"
| "getProperty v key = Some JUndefined"

subsection \<open>Options and state of the hook\<close>

text \<open>Every option is optional; \<open>None\<close> is an option left out (\<open>undefined\<close>).\<close>

record SetupStatusOptions =
  redirectToSetupIfNeeded :: "bool option"
  redirectToLoginIfRegistrationClosed :: "bool option"
  redirectToLoginIfInitialized :: "bool option"

record SetupStatusState =
  isLoading :: bool
  initialized :: bool
  needsSetup :: bool
  registrationEnabled :: bool

text \<open>The default of a destructured option: \<open>{ x = d } = options\<close>.\<close>

definition orDefault :: "'a \<Rightarrow> 'a option \<Rightarrow> 'a" where
  "orDefault d x = (case x of None \<Rightarrow> d | Some v \<Rightarrow> v)"

text \<open>The argument of \<open>useState\<close>.\<close>

definition initialState :: SetupStatusState where
  "initialState =
     \<lparr>isLoading = True, initialized = False, needsSetup = False, registrationEnabled = True\<rparr>"

subsection \<open>One activation of the effect\<close>

text \<open>
  \<open>checkSetupStatus\<close> suspends twice: at \<open>await apiRequest(...)\<close> and at
  \<open>await response.json()\<close>. An activation is the hook's \<open>state\<close>, the values assigned
  so far to \<open>window.location.href\<close> (oldest first), the closure's \<open>isCancelled\<close> flag and
  the point where \<open>checkSetupStatus\<close> is suspended.
\<close>

datatype phase = AwaitingFetch | AwaitingJson | Settled

record response =
  ok :: bool

record probe =
  state :: SetupStatusState
  href :: "string list"
  isCancelled :: bool
  phase :: phase

text \<open>\<open>setState((prev) => ({ ...prev, isLoading: false }))\<close>\<close>

definition stopLoading :: "probe \<Rightarrow> probe" where
  "stopLoading p = p\<lparr>state := (state p)\<lparr>isLoading := False\<rparr>\<rparr>"

text \<open>\<open>window.location.href = url\<close>\<close>

definition navigate :: "string \<Rightarrow> probe \<Rightarrow> probe" where
  "navigate url p = p\<lparr>href := href p @ [url]\<rparr>"

text \<open>The \<open>catch\<close> block, which ends the function.\<close>

definition catchBlock :: "probe \<Rightarrow> probe" where
  "catchBlock p = (if \<not> isCancelled p then stopLoading p else p)\<lparr>phase := Settled\<rparr>"

text \<open>
  Lines 51 to 53: the three reads, in the source's order; the first access that throws
  ends them. The result is \<open>(needsSetup, initialized, registrationEnabled)\<close>.
\<close>

definition parseFlags :: "jsvalue \<Rightarrow> (bool \<times> bool \<times> bool) option" where
  "parseFlags data =
     (case getProperty data ''needs_setup'' of
        None \<Rightarrow> None
      | Some a \<Rightarrow>
          (case getProperty data ''initialized'' of
             None \<Rightarrow> None
           | Some b \<Rightarrow>
               (case getProperty data ''registration_enabled'' of
                  None \<Rightarrow> None
                | Some c \<Rightarrow> Some (Boolean a, Boolean b, Boolean c))))"

text \<open>
  Resumption after \<open>await apiRequest(...)\<close> (lines 42 to 48); \<open>None\<close> is a rejected or
  throwing request.
\<close>

definition afterFetch :: "response option \<Rightarrow> probe \<Rightarrow> probe" where
  "afterFetch r p =
     (case r of
        None \<Rightarrow> catchBlock p
      | Some resp \<Rightarrow>
          if \<not> ok resp then
            (if \<not> isCancelled p then stopLoading p else p)\<lparr>phase := Settled\<rparr>
          else p\<lparr>phase := AwaitingJson\<rparr>)"

text \<open>
  Resumption after \<open>await response.json()\<close> (lines 50 to 77); \<open>None\<close> is a body that
  is not JSON.
\<close>

definition afterJson :: "SetupStatusOptions \<Rightarrow> jsvalue option \<Rightarrow> probe \<Rightarrow> probe" where
  "afterJson options d p =
     (case d of
        None \<Rightarrow> catchBlock p
      | Some data \<Rightarrow>
          (case parseFlags data of
             None \<Rightarrow> catchBlock p
           | Some (needsSetup', initialized', registrationEnabled') \<Rightarrow>
               if orDefault False (redirectToSetupIfNeeded options) \<and> needsSetup' then
                 (navigate ''/setup'' p)\<lparr>phase := Settled\<rparr>
               else if orDefault False (redirectToLoginIfRegistrationClosed options)
                       \<and> \<not> needsSetup' \<and> \<not> registrationEnabled' then
                 (navigate ''/login'' p)\<lparr>phase := Settled\<rparr>
               else if orDefault False (redirectToLoginIfInitialized options)
                       \<and> initialized' \<and> \<not> needsSetup' then
                 (navigate ''/login'' p)\<lparr>phase := Settled\<rparr>
               else
                 (if \<not> isCancelled p then
                    p\<lparr>state := \<lparr>isLoading = False, initialized = initialized',
                                 needsSetup = needsSetup',
                                 registrationEnabled = registrationEnabled'\<rparr>\<rparr>
                  else p)\<lparr>phase := Settled\<rparr>))"

text \<open>
  What can happen to an activation: the request settles, the body settles, or the
  effect's cleanup runs. A settlement the function is not waiting for changes nothing
  (a promise settles once).
\<close>

datatype event =
    FetchSettled "response option"
  | JsonSettled "jsvalue option"
  | Cleanup

fun step :: "SetupStatusOptions \<Rightarrow> probe \<Rightarrow> event \<Rightarrow> probe" where
  "step options p (FetchSettled r) = (if phase p = AwaitingFetch then afterFetch r p else p)"
| "step options p (JsonSettled d) =
     (if phase p = AwaitingJson then afterJson options d p else p)"
| "step options p Cleanup = p\<lparr>isCancelled := True\<rparr>"

definition run :: "SetupStatusOptions \<Rightarrow> probe \<Rightarrow> event list \<Rightarrow> probe" where
  "run options p es = foldl (step options) p es"

text \<open>
  The activation a mount starts: \<open>useState\<close>'s initial value, nothing assigned to the
  location, \<open>let isCancelled = false\<close>, and \<open>checkSetupStatus()\<close> suspended at the request.
\<close>

definition mount :: probe where
  "mount = \<lparr>state = initialState, href = [], isCancelled = False, phase = AwaitingFetch\<rparr>"

text \<open>What \<open>useSetupStatus\<close> returns on the first render.\<close>

definition useSetupStatus :: "SetupStatusOptions \<Rightarrow> SetupStatusState" where
  "useSetupStatus options = state mount"

subsection \<open>The options the pages pass\<close>

text \<open>
  \<open>RegisterPage\<close> and \<open>SetupPage\<close> of src/frontend/src/components/pages/register.tsx,
  and the default \<open>options = {}\<close> of a call without options.
\<close>

definition registerPageOptions :: SetupStatusOptions where
  "registerPageOptions =
     \<lparr>redirectToSetupIfNeeded = Some True,
      redirectToLoginIfRegistrationClosed = Some True,
      redirectToLoginIfInitialized = None\<rparr>"

definition setupPageOptions :: SetupStatusOptions where
  "setupPageOptions =
     \<lparr>redirectToSetupIfNeeded = None,
      redirectToLoginIfRegistrationClosed = None,
      redirectToLoginIfInitialized = Some True\<rparr>"

definition noOptions :: SetupStatusOptions where
  "noOptions =
     \<lparr>redirectToSetupIfNeeded = None,
      redirectToLoginIfRegistrationClosed = None,
      redirectToLoginIfInitialized = None\<rparr>"

section \<open>Runs of an activation\<close>

lemma run_Nil: "run options p [] = p"
  by (simp add: run_def)

lemma run_Cons: "run options p (e # es) = run options (step options p e) es"
  by (simp add: run_def)

lemma run_append: "run options p (es @ fs) = run options (run options p es) fs"
  by (simp add: run_def)

text \<open>Once \<open>checkSetupStatus\<close> has returned, nothing changes the state or the location.\<close>

lemma step_Settled:
  "phase p = Settled \<Longrightarrow>
     phase (step options p e) = Settled
     \<and> state (step options p e) = state p \<and> href (step options p e) = href p"
  by (cases e) simp_all

lemma run_Settled:
  "phase p = Settled \<Longrightarrow>
     phase (run options p es) = Settled
     \<and> state (run options p es) = state p \<and> href (run options p es) = href p"
proof (induction es arbitrary: p)
  case Nil
  then show ?case by (simp add: run_Nil)
next
  case (Cons e es)
  from Cons.prems have s: "phase (step options p e) = Settled"
    "state (step options p e) = state p" "href (step options p e) = href p"
    using step_Settled by blast+
  from Cons.IH [OF s(1)] s show ?case by (simp add: run_Cons)
qed

text \<open>Cleanups alone set the flag and nothing else.\<close>

lemma run_Cleanups:
  "set cs \<subseteq> {Cleanup} \<Longrightarrow>
     phase (run options p cs) = phase p
     \<and> state (run options p cs) = state p \<and> href (run options p cs) = href p
     \<and> (isCancelled (run options p cs) \<longleftrightarrow> isCancelled p \<or> cs \<noteq> [])"
proof (induction cs arbitrary: p)
  case Nil
  then show ?case by (simp add: run_Nil)
next
  case (Cons e cs)
  then have e: "e = Cleanup" and cs: "set cs \<subseteq> {Cleanup}" by auto
  from Cons.IH [OF cs, of "step options p e"] e show ?case by (simp add: run_Cons)
qed

text \<open>The flag is never reset, and under it no \<open>setState\<close> is reached.\<close>

lemma step_cancelled_state:
  "isCancelled p \<Longrightarrow> isCancelled (step options p e) \<and> state (step options p e) = state p"
  by (cases e)
     (auto simp: afterFetch_def afterJson_def catchBlock_def navigate_def
           split: option.splits prod.splits)

lemma run_cancelled_state:
  "isCancelled p \<Longrightarrow> isCancelled (run options p es) \<and> state (run options p es) = state p"
proof (induction es arbitrary: p)
  case Nil
  then show ?case by (simp add: run_Nil)
next
  case (Cons e es)
  from step_cancelled_state [OF Cons.prems, of options e]
  have c: "isCancelled (step options p e)" and s: "state (step options p e) = state p"
    by simp_all
  from Cons.IH [OF c] s show ?case by (simp add: run_Cons)
qed

section \<open>The two resumptions\<close>

text \<open>Reading the fields throws exactly on \<open>null\<close> and \<open>undefined\<close>.\<close>

lemma parseFlags_None_iff: "parseFlags data = None \<longleftrightarrow> data = JNull \<or> data = JUndefined"
  by (cases data) (simp_all add: parseFlags_def)

lemma parseFlags_JObject:
  "parseFlags (JObject kvs) =
     Some (case map_of kvs ''needs_setup'' of None \<Rightarrow> False | Some v \<Rightarrow> Boolean v,
           case map_of kvs ''initialized'' of None \<Rightarrow> False | Some v \<Rightarrow> Boolean v,
           case map_of kvs ''registration_enabled'' of None \<Rightarrow> False | Some v \<Rightarrow> Boolean v)"
  by (simp add: parseFlags_def split: option.splits)

lemma afterFetch_fail:
  "r = None \<or> (\<exists>resp. r = Some resp \<and> \<not> ok resp) \<Longrightarrow>
     phase (afterFetch r p) = Settled \<and> href (afterFetch r p) = href p
     \<and> state (afterFetch r p) =
         (if isCancelled p then state p else (state p)\<lparr>isLoading := False\<rparr>)"
  by (auto simp: afterFetch_def catchBlock_def stopLoading_def)

lemma afterFetch_ok: "ok resp \<Longrightarrow> afterFetch (Some resp) p = p\<lparr>phase := AwaitingJson\<rparr>"
  by (simp add: afterFetch_def)

lemma afterJson_Settled: "phase (afterJson options d p) = Settled"
  by (simp add: afterJson_def catchBlock_def split: option.splits prod.splits)

lemma afterJson_fail:
  "d = None \<or> (\<exists>data. d = Some data \<and> parseFlags data = None) \<Longrightarrow>
     href (afterJson options d p) = href p
     \<and> state (afterJson options d p) =
         (if isCancelled p then state p else (state p)\<lparr>isLoading := False\<rparr>)"
  by (auto simp: afterJson_def catchBlock_def stopLoading_def)

lemma afterJson_parsed:
  "parseFlags data = Some (n, i, r) \<Longrightarrow>
     href (afterJson options (Some data) p) =
       href p @
        (if orDefault False (redirectToSetupIfNeeded options) \<and> n then [''/setup'']
         else if orDefault False (redirectToLoginIfRegistrationClosed options) \<and> \<not> n \<and> \<not> r
           then [''/login'']
         else if orDefault False (redirectToLoginIfInitialized options) \<and> i \<and> \<not> n
           then [''/login'']
         else [])
     \<and> state (afterJson options (Some data) p) =
        (if (orDefault False (redirectToSetupIfNeeded options) \<and> n)
            \<or> (orDefault False (redirectToLoginIfRegistrationClosed options) \<and> \<not> n \<and> \<not> r)
            \<or> (orDefault False (redirectToLoginIfInitialized options) \<and> i \<and> \<not> n)
            \<or> isCancelled p
         then state p
         else \<lparr>isLoading = False, initialized = i, needsSetup = n, registrationEnabled = r\<rparr>)"
  by (simp add: afterJson_def navigate_def)

lemma run_to_fetch:
  assumes "phase p = AwaitingFetch" and "set cs \<subseteq> {Cleanup}"
  shows "\<exists>q. phase q = AwaitingFetch \<and> state q = state p \<and> href q = href p
           \<and> (isCancelled q \<longleftrightarrow> isCancelled p \<or> cs \<noteq> [])
           \<and> run options p (cs @ FetchSettled r # es) = run options (afterFetch r q) es"
proof -
  let ?q = "run options p cs"
  from run_Cleanups [OF assms(2), of options p] assms(1)
  have q: "phase ?q = AwaitingFetch" "state ?q = state p" "href ?q = href p"
    "isCancelled ?q \<longleftrightarrow> isCancelled p \<or> cs \<noteq> []" by simp_all
  have "run options p (cs @ FetchSettled r # es) = run options (afterFetch r ?q) es"
    using q(1) by (simp add: run_append run_Cons)
  with q show ?thesis by blast
qed

lemma run_to_json:
  assumes "phase p = AwaitingFetch" and "ok resp"
    and "set cs \<subseteq> {Cleanup}" and "set ds \<subseteq> {Cleanup}"
  shows "\<exists>q. phase q = AwaitingJson \<and> state q = state p \<and> href q = href p
           \<and> (isCancelled q \<longleftrightarrow> isCancelled p \<or> cs \<noteq> [] \<or> ds \<noteq> [])
           \<and> run options p (cs @ FetchSettled (Some resp) # ds @ JsonSettled d # es)
               = run options (afterJson options d q) es"
proof -
  from run_to_fetch [OF assms(1) assms(3), of options "Some resp" "ds @ JsonSettled d # es"]
  obtain q0 where q0: "phase q0 = AwaitingFetch" "state q0 = state p" "href q0 = href p"
      "isCancelled q0 \<longleftrightarrow> isCancelled p \<or> cs \<noteq> []"
      "run options p (cs @ FetchSettled (Some resp) # ds @ JsonSettled d # es)
         = run options (afterFetch (Some resp) q0) (ds @ JsonSettled d # es)"
    by blast
  let ?q1 = "q0\<lparr>phase := AwaitingJson\<rparr>"
  let ?q = "run options ?q1 ds"
  from run_Cleanups [OF assms(4), of options ?q1] q0
  have q: "phase ?q = AwaitingJson" "state ?q = state p" "href ?q = href p"
    "isCancelled ?q \<longleftrightarrow> isCancelled p \<or> cs \<noteq> [] \<or> ds \<noteq> []" by simp_all
  have "run options ?q1 (ds @ JsonSettled d # es) = run options (afterJson options d ?q) es"
    using q(1) by (simp add: run_append run_Cons)
  with q0(5) afterFetch_ok [OF assms(2), of q0]
  have "run options p (cs @ FetchSettled (Some resp) # ds @ JsonSettled d # es)
          = run options (afterJson options d ?q) es" by simp
  with q show ?thesis by blast
qed

lemma run_after_Settled:
  "phase q = Settled \<Longrightarrow> state (run options q es) = state q \<and> href (run options q es) = href q"
  using run_Settled by blast


lemma run_failed_fetch:
  assumes "phase p = AwaitingFetch" and "set cs \<subseteq> {Cleanup}"
    and "r = None \<or> (\<exists>resp. r = Some resp \<and> \<not> ok resp)"
  shows "href (run options p (cs @ FetchSettled r # es)) = href p
     \<and> state (run options p (cs @ FetchSettled r # es)) =
         (if isCancelled p \<or> cs \<noteq> [] then state p else (state p)\<lparr>isLoading := False\<rparr>)"
proof -
  from run_to_fetch [OF assms(1,2), of options r es]
  obtain q where q: "state q = state p" "href q = href p"
      "isCancelled q \<longleftrightarrow> isCancelled p \<or> cs \<noteq> []"
      "run options p (cs @ FetchSettled r # es) = run options (afterFetch r q) es"
    by blast
  from afterFetch_fail [OF assms(3), of q]
  have a: "phase (afterFetch r q) = Settled" "href (afterFetch r q) = href q"
    "state (afterFetch r q) = (if isCancelled q then state q else (state q)\<lparr>isLoading := False\<rparr>)"
    by simp_all
  from run_after_Settled [OF a(1), of options es] a(2,3) q show ?thesis by simp
qed

lemma run_failed_json:
  assumes "phase p = AwaitingFetch" and "ok resp"
    and "set cs \<subseteq> {Cleanup}" and "set ds \<subseteq> {Cleanup}"
    and "d = None \<or> (\<exists>data. d = Some data \<and> parseFlags data = None)"
  shows "href (run options p (cs @ FetchSettled (Some resp) # ds @ JsonSettled d # es)) = href p
     \<and> state (run options p (cs @ FetchSettled (Some resp) # ds @ JsonSettled d # es)) =
         (if isCancelled p \<or> cs \<noteq> [] \<or> ds \<noteq> [] then state p
          else (state p)\<lparr>isLoading := False\<rparr>)"
proof -
  from run_to_json [OF assms(1-4), of options d es]
  obtain q where q: "state q = state p" "href q = href p"
      "isCancelled q \<longleftrightarrow> isCancelled p \<or> cs \<noteq> [] \<or> ds \<noteq> []"
      "run options p (cs @ FetchSettled (Some resp) # ds @ JsonSettled d # es)
         = run options (afterJson options d q) es"
    by blast
  from afterJson_fail [OF assms(5), of options q]
  have a: "href (afterJson options d q) = href q"
    "state (afterJson options d q) =
       (if isCancelled q then state q else (state q)\<lparr>isLoading := False\<rparr>)"
    by simp_all
  from run_after_Settled [of "afterJson options d q" options es, OF afterJson_Settled] a q show ?thesis by simp
qed

lemma run_parsed:
  assumes "phase p = AwaitingFetch" and "ok resp"
    and "set cs \<subseteq> {Cleanup}" and "set ds \<subseteq> {Cleanup}"
    and "parseFlags data = Some (n, i, r)"
  shows "href (run options p (cs @ FetchSettled (Some resp) # ds @ JsonSettled (Some data) # es)) =
       href p @
        (if orDefault False (redirectToSetupIfNeeded options) \<and> n then [''/setup'']
         else if orDefault False (redirectToLoginIfRegistrationClosed options) \<and> \<not> n \<and> \<not> r
           then [''/login'']
         else if orDefault False (redirectToLoginIfInitialized options) \<and> i \<and> \<not> n
           then [''/login'']
         else [])
     \<and> state (run options p (cs @ FetchSettled (Some resp) # ds @ JsonSettled (Some data) # es)) =
        (if (orDefault False (redirectToSetupIfNeeded options) \<and> n)
            \<or> (orDefault False (redirectToLoginIfRegistrationClosed options) \<and> \<not> n \<and> \<not> r)
            \<or> (orDefault False (redirectToLoginIfInitialized options) \<and> i \<and> \<not> n)
            \<or> isCancelled p \<or> cs \<noteq> [] \<or> ds \<noteq> []
         then state p
         else \<lparr>isLoading = False, initialized = i, needsSetup = n, registrationEnabled = r\<rparr>)"
proof -
  from run_to_json [OF assms(1-4), of options "Some data" es]
  obtain q where q: "state q = state p" "href q = href p"
      "isCancelled q \<longleftrightarrow> isCancelled p \<or> cs \<noteq> [] \<or> ds \<noteq> []"
      "run options p (cs @ FetchSettled (Some resp) # ds @ JsonSettled (Some data) # es)
         = run options (afterJson options (Some data) q) es"
    by blast
  from run_after_Settled [of "afterJson options (Some data) q" options es, OF afterJson_Settled]
    afterJson_parsed [OF assms(5), of options q] q
  show ?thesis by simp
qed

text \<open>With no redirect requested, no branch that assigns the location is reachable.\<close>

lemma step_no_redirect:
  assumes "orDefault False (redirectToSetupIfNeeded options) = False"
    and "orDefault False (redirectToLoginIfRegistrationClosed options) = False"
    and "orDefault False (redirectToLoginIfInitialized options) = False"
  shows "href (step options p e) = href p"
  using assms
  by (cases e)
     (auto simp: afterFetch_def afterJson_def catchBlock_def stopLoading_def
           split: option.splits prod.splits)

lemma run_no_redirect:
  assumes "orDefault False (redirectToSetupIfNeeded options) = False"
    and "orDefault False (redirectToLoginIfRegistrationClosed options) = False"
    and "orDefault False (redirectToLoginIfInitialized options) = False"
  shows "href (run options p es) = href p"
proof (induction es arbitrary: p)
  case Nil
  show ?case by (simp add: run_Nil)
next
  case (Cons e es)
  from Cons.IH [of "step options p e"] step_no_redirect [OF assms, of p e]
  show ?case by (simp add: run_Cons)
qed

section \<open>Cancellation\<close>

text \<open>
  C1. The claim asks that an activation cancelled before the request resolves neither
  updates the state nor navigates, whatever resolves later. The code reads the flag
  before each of its three \<open>setState\<close> calls, and the redirects of the same function
  miss the check. At the input below the activation is mounted with
  \<open>redirectToSetupIfNeeded: true\<close>, its cleanup runs, and then the request succeeds with
  \<open>needs_setup: true\<close>: the flag is set, and \<open>/setup\<close> is assigned to the location all
  the same. The same events without options show the guard that the redirects lack: the
  cancelled activation keeps the initial state, where an activation that was not
  cancelled publishes the parsed flags.
\<close>

theorem cancelled_still_navigates:
  "isCancelled (run \<lparr>redirectToSetupIfNeeded = Some True,
                     redirectToLoginIfRegistrationClosed = None,
                     redirectToLoginIfInitialized = None\<rparr> mount [Cleanup])
   \<and> href (run \<lparr>redirectToSetupIfNeeded = Some True,
                redirectToLoginIfRegistrationClosed = None,
                redirectToLoginIfInitialized = None\<rparr> mount
             [Cleanup, FetchSettled (Some \<lparr>ok = True\<rparr>),
              JsonSettled (Some (JObject [(''needs_setup'', JBool True)]))]) = [''/setup'']
   \<and> state (run noOptions mount
             [Cleanup, FetchSettled (Some \<lparr>ok = True\<rparr>),
              JsonSettled (Some (JObject [(''needs_setup'', JBool True)]))]) = initialState
   \<and> state (run noOptions mount
             [FetchSettled (Some \<lparr>ok = True\<rparr>),
              JsonSettled (Some (JObject [(''needs_setup'', JBool True)]))]) =
       \<lparr>isLoading = False, initialized = False, needsSetup = True, registrationEnabled = False\<rparr>"
  by (simp add: run_def mount_def noOptions_def afterFetch_def afterJson_def parseFlags_def
        navigate_def orDefault_def)

section \<open>Redirect rules\<close>

text \<open>
  C2. The rules are tried in the source's order and the first that matches assigns the
  location and returns: from a mount, through any cleanups, a successful response whose
  body parses to \<open>(needsSetup, initialized, registrationEnabled) = (n, i, r)\<close> leads to
  the one assignment the first matching rule makes, or to none, whatever settles
  afterwards. Where rule 1 matches (as for the Register page's options and the status
  \<open>needsSetup: true, initialized: false, registrationEnabled: true\<close>), the only
  assignment is \<open>/setup\<close> and no state is published.
\<close>

theorem redirect_precedence:
  assumes "phase p = AwaitingFetch" and "ok resp"
    and "set cs \<subseteq> {Cleanup}" and "set ds \<subseteq> {Cleanup}"
    and "parseFlags data = Some (n, i, r)"
  shows "href (run options p (cs @ FetchSettled (Some resp) # ds @ JsonSettled (Some data) # es)) =
       href p @
        (if orDefault False (redirectToSetupIfNeeded options) \<and> n then [''/setup'']
         else if orDefault False (redirectToLoginIfRegistrationClosed options) \<and> \<not> n \<and> \<not> r
           then [''/login'']
         else if orDefault False (redirectToLoginIfInitialized options) \<and> i \<and> \<not> n
           then [''/login'']
         else [])
     \<and> (orDefault False (redirectToSetupIfNeeded options) \<and> n \<longrightarrow>
          href (run options p (cs @ FetchSettled (Some resp) # ds @ JsonSettled (Some data) # es))
            = href p @ [''/setup'']
          \<and> state (run options p (cs @ FetchSettled (Some resp) # ds @ JsonSettled (Some data) # es))
            = state p)"
  using run_parsed [OF assms, of options es] by simp

text \<open>
  The theorem at the Register page's options and the body
  \<open>{needs_setup: true, initialized: false, registration_enabled: true}\<close>, with a cleanup
  between the two awaits and a stray settlement at the end.
\<close>

theorem redirect_precedence_witness:
  "parseFlags (JObject [(''needs_setup'', JBool True), (''initialized'', JBool False),
                        (''registration_enabled'', JBool True)]) = Some (True, False, True)
   \<and> href (run registerPageOptions mount
        [FetchSettled (Some \<lparr>ok = True\<rparr>), Cleanup,
         JsonSettled (Some (JObject [(''needs_setup'', JBool True), (''initialized'', JBool False),
                        (''registration_enabled'', JBool True)])),
         JsonSettled None]) = [''/setup'']
   \<and> state (run registerPageOptions mount
        [FetchSettled (Some \<lparr>ok = True\<rparr>), Cleanup,
         JsonSettled (Some (JObject [(''needs_setup'', JBool True), (''initialized'', JBool False),
                        (''registration_enabled'', JBool True)])),
         JsonSettled None]) = initialState"
proof -
  let ?data = "JObject [(''needs_setup'', JBool True), (''initialized'', JBool False),
                        (''registration_enabled'', JBool True)]"
  have a: "phase mount = AwaitingFetch" by (simp add: mount_def)
  have b: "ok \<lparr>ok = True\<rparr>" by simp
  have c: "set [] \<subseteq> {Cleanup}" by simp
  have d: "set [Cleanup] \<subseteq> {Cleanup}" by simp
  have e: "parseFlags ?data = Some (True, False, True)" by (simp add: parseFlags_def)
  from redirect_precedence [OF a b c d e, of registerPageOptions "[JsonSettled None]"] e
  show ?thesis by (simp add: registerPageOptions_def orDefault_def mount_def)
qed

section \<open>Failures\<close>

text \<open>
  C3. For every options value: when the request is rejected or answers with \<open>ok\<close> false,
  or the response is \<open>ok\<close> and reading its body throws (the body is not JSON, or it is
  JSON \<open>null\<close>, whose property access throws), nothing is assigned to the location and
  \<open>initialized\<close>, \<open>needsSetup\<close> and \<open>registrationEnabled\<close> keep their values; if the
  activation is not cancelled by then, \<open>isLoading\<close> becomes false, and otherwise the
  state is left as it was.
\<close>

theorem fail_open:
  assumes "phase p = AwaitingFetch"
    and "set cs \<subseteq> {Cleanup}" and "set ds \<subseteq> {Cleanup}"
  shows
    "(r = None \<or> (\<exists>resp. r = Some resp \<and> \<not> ok resp) \<longrightarrow>
        href (run options p (cs @ FetchSettled r # es)) = href p
        \<and> state (run options p (cs @ FetchSettled r # es)) =
            (if isCancelled p \<or> cs \<noteq> [] then state p
             else (state p)\<lparr>isLoading := False\<rparr>))
     \<and> (ok resp \<and> (d = None \<or> d = Some JNull) \<longrightarrow>
        href (run options p (cs @ FetchSettled (Some resp) # ds @ JsonSettled d # es)) = href p
        \<and> state (run options p (cs @ FetchSettled (Some resp) # ds @ JsonSettled d # es)) =
            (if isCancelled p \<or> cs \<noteq> [] \<or> ds \<noteq> [] then state p
             else (state p)\<lparr>isLoading := False\<rparr>))"
proof (intro conjI impI)
  assume f: "r = None \<or> (\<exists>resp. r = Some resp \<and> \<not> ok resp)"
  from run_failed_fetch [OF assms(1,2) f, of options es]
  show "href (run options p (cs @ FetchSettled r # es)) = href p"
    and "state (run options p (cs @ FetchSettled r # es)) =
            (if isCancelled p \<or> cs \<noteq> [] then state p
             else (state p)\<lparr>isLoading := False\<rparr>)"
    by simp_all
next
  assume j: "ok resp \<and> (d = None \<or> d = Some JNull)"
  then have o: "ok resp" and b: "d = None \<or> (\<exists>data. d = Some data \<and> parseFlags data = None)"
    by (auto simp: parseFlags_None_iff)
  from run_failed_json [OF assms(1) o assms(2,3) b, of options es]
  show "href (run options p (cs @ FetchSettled (Some resp) # ds @ JsonSettled d # es)) = href p"
    and "state (run options p (cs @ FetchSettled (Some resp) # ds @ JsonSettled d # es)) =
            (if isCancelled p \<or> cs \<noteq> [] \<or> ds \<noteq> [] then state p
             else (state p)\<lparr>isLoading := False\<rparr>)"
    by simp_all
qed

text \<open>
  The theorem from a mount: a rejected request on the Register page, a response that is
  not \<open>ok\<close> on the Setup page, and a body that is not JSON or is \<open>null\<close> on the Register
  page. Each time the flags are the defaults, \<open>isLoading\<close> is false and the location is untouched.
\<close>

theorem fail_open_witness:
  "href (run registerPageOptions mount [FetchSettled None]) = []
   \<and> state (run registerPageOptions mount [FetchSettled None]) =
       \<lparr>isLoading = False, initialized = False, needsSetup = False, registrationEnabled = True\<rparr>
   \<and> href (run setupPageOptions mount [FetchSettled (Some \<lparr>ok = False\<rparr>)]) = []
   \<and> state (run setupPageOptions mount [FetchSettled (Some \<lparr>ok = False\<rparr>)]) =
       \<lparr>isLoading = False, initialized = False, needsSetup = False, registrationEnabled = True\<rparr>
   \<and> href (run registerPageOptions mount
             [FetchSettled (Some \<lparr>ok = True\<rparr>), JsonSettled None]) = []
   \<and> state (run registerPageOptions mount
             [FetchSettled (Some \<lparr>ok = True\<rparr>), JsonSettled None]) =
       \<lparr>isLoading = False, initialized = False, needsSetup = False, registrationEnabled = True\<rparr>
   \<and> href (run registerPageOptions mount
             [FetchSettled (Some \<lparr>ok = True\<rparr>), JsonSettled (Some JNull)]) = []
   \<and> state (run registerPageOptions mount
             [FetchSettled (Some \<lparr>ok = True\<rparr>), JsonSettled (Some JNull)]) =
       \<lparr>isLoading = False, initialized = False, needsSetup = False, registrationEnabled = True\<rparr>"
proof -
  have a: "phase mount = AwaitingFetch" by (simp add: mount_def)
  have c: "set [] \<subseteq> {Cleanup}" by simp
  from fail_open [OF a c c, where r = None and options = registerPageOptions and es = "[]"]
    fail_open [OF a c c, where r = "Some \<lparr>ok = False\<rparr>" and options = setupPageOptions
      and es = "[]"]
    fail_open [OF a c c, where resp = "\<lparr>ok = True\<rparr>" and d = None
      and options = registerPageOptions and es = "[]"]
    fail_open [OF a c c, where resp = "\<lparr>ok = True\<rparr>" and d = "Some JNull"
      and options = registerPageOptions and es = "[]"]
  show ?thesis by (simp add: mount_def initialState_def)
qed

section \<open>Route classification\<close>

text \<open>
  C4. \<open>isAuthPublicPath\<close> is true for a string exactly when the string is \<open>/login\<close>,
  \<open>/register\<close> or \<open>/setup\<close>, and false for \<open>null\<close>.
\<close>

theorem isAuthPublicPath_exact:
  "isAuthPublicPath None = False
   \<and> (isAuthPublicPath (Some s) \<longleftrightarrow> s = ''/login'' \<or> s = ''/register'' \<or> s = ''/setup'')"
  by (auto simp: isAuthPublicPath_def AUTH_PUBLIC_PATHS_def)

text \<open>The three public paths, three near misses and \<open>null\<close>.\<close>

theorem isAuthPublicPath_exact_witness:
  "isAuthPublicPath (Some ''/login'') \<and> isAuthPublicPath (Some ''/register'')
   \<and> isAuthPublicPath (Some ''/setup'') \<and> \<not> isAuthPublicPath (Some ''/setup/'')
   \<and> \<not> isAuthPublicPath (Some ''/Login'') \<and> \<not> isAuthPublicPath (Some [])
   \<and> \<not> isAuthPublicPath None"
  using isAuthPublicPath_exact [of "''/login''"] isAuthPublicPath_exact [of "''/register''"]
    isAuthPublicPath_exact [of "''/setup''"] isAuthPublicPath_exact [of "''/setup/''"]
    isAuthPublicPath_exact [of "''/Login''"] isAuthPublicPath_exact [of "[]"]
  by simp

section \<open>A status that is neither initialized nor in need of setup\<close>

text \<open>
  C5, as the code has it. For every options value, a successful response that parses to
  \<open>initialized = false\<close> and \<open>needsSetup = false\<close> is handled by the ordinary rules.
  When it reports \<open>registrationEnabled = true\<close>, or \<open>redirectToLoginIfRegistrationClosed\<close>
  is not set, nothing is assigned to the location and, unless the activation is
  cancelled, the parsed flags are published with \<open>isLoading\<close> false.
\<close>

theorem inconsistent_status:
  assumes "phase p = AwaitingFetch" and "ok resp"
    and "parseFlags data = Some (False, False, r)"
    and "r \<or> orDefault False (redirectToLoginIfRegistrationClosed options) = False"
  shows "href (run options p (FetchSettled (Some resp) # JsonSettled (Some data) # es)) = href p
     \<and> state (run options p (FetchSettled (Some resp) # JsonSettled (Some data) # es)) =
        (if isCancelled p then state p
         else \<lparr>isLoading = False, initialized = False, needsSetup = False,
               registrationEnabled = r\<rparr>)"
proof -
  have c: "set [] \<subseteq> {Cleanup}" by simp
  from run_parsed [OF assms(1,2) c c assms(3), of options es] assms(4)
  show ?thesis by auto
qed

text \<open>
  The theorem on the Setup page with the empty object as body, and on the Register page
  with a body that reports registration open.
\<close>

theorem inconsistent_status_witness:
  "parseFlags (JObject []) = Some (False, False, False)
   \<and> href (run setupPageOptions mount
        [FetchSettled (Some \<lparr>ok = True\<rparr>), JsonSettled (Some (JObject []))]) = []
   \<and> state (run setupPageOptions mount
        [FetchSettled (Some \<lparr>ok = True\<rparr>), JsonSettled (Some (JObject []))]) =
       \<lparr>isLoading = False, initialized = False, needsSetup = False, registrationEnabled = False\<rparr>
   \<and> href (run registerPageOptions mount
        [FetchSettled (Some \<lparr>ok = True\<rparr>),
         JsonSettled (Some (JObject [(''registration_enabled'', JBool True)]))]) = []
   \<and> state (run registerPageOptions mount
        [FetchSettled (Some \<lparr>ok = True\<rparr>),
         JsonSettled (Some (JObject [(''registration_enabled'', JBool True)]))]) =
       \<lparr>isLoading = False, initialized = False, needsSetup = False, registrationEnabled = True\<rparr>"
proof -
  let ?open = "JObject [(''registration_enabled'', JBool True)]"
  have a: "phase mount = AwaitingFetch" by (simp add: mount_def)
  have b: "ok \<lparr>ok = True\<rparr>" by simp
  have e: "parseFlags (JObject []) = Some (False, False, False)" by (simp add: parseFlags_def)
  have f: "False \<or> orDefault False (redirectToLoginIfRegistrationClosed setupPageOptions) = False"
    by (simp add: setupPageOptions_def orDefault_def)
  have g: "parseFlags ?open = Some (False, False, True)" by (simp add: parseFlags_def)
  have h: "True \<or> orDefault False (redirectToLoginIfRegistrationClosed registerPageOptions) = False"
    by simp
  from inconsistent_status [OF a b e f, where es = "[]"]
    inconsistent_status [OF a b g h, where es = "[]"] e
  show ?thesis by (simp add: mount_def)
qed

text \<open>
  C5 as stated fails: on the Register page, the body
  \<open>{needs_setup: false, initialized: false, registration_enabled: false}\<close> matches rule 2.
  \<open>/login\<close> is assigned to the location and \<open>isLoading\<close> stays true.
\<close>

theorem inconsistent_status_redirects:
  "parseFlags (JObject [(''needs_setup'', JBool False), (''initialized'', JBool False),
                        (''registration_enabled'', JBool False)]) = Some (False, False, False)
   \<and> href (run registerPageOptions mount
        [FetchSettled (Some \<lparr>ok = True\<rparr>),
         JsonSettled (Some (JObject [(''needs_setup'', JBool False), (''initialized'', JBool False),
                        (''registration_enabled'', JBool False)]))]) = [''/login'']
   \<and> isLoading (state (run registerPageOptions mount
        [FetchSettled (Some \<lparr>ok = True\<rparr>),
         JsonSettled (Some (JObject [(''needs_setup'', JBool False), (''initialized'', JBool False),
                        (''registration_enabled'', JBool False)]))])) = True"
  by (simp add: run_def mount_def initialState_def registerPageOptions_def afterFetch_def
        afterJson_def parseFlags_def navigate_def orDefault_def)

section \<open>The Login page\<close>

text \<open>
  C6. With the three options false or left out, nothing is ever assigned to the
  location, whatever happens to the activation. From an activation that waits for the
  request and is not cancelled: a rejected request, a response that is not \<open>ok\<close> and a
  body that cannot be read each end with \<open>isLoading\<close> false and the other flags as they
  were; a body that parses ends with \<open>isLoading\<close> false and the parsed flags.
\<close>

theorem login_never_navigates:
  assumes "orDefault False (redirectToSetupIfNeeded options) = False"
    and "orDefault False (redirectToLoginIfRegistrationClosed options) = False"
    and "orDefault False (redirectToLoginIfInitialized options) = False"
  shows "href (run options p es) = href p
     \<and> (phase p = AwaitingFetch \<and> \<not> isCancelled p \<longrightarrow>
          (r = None \<or> (\<exists>resp. r = Some resp \<and> \<not> ok resp) \<longrightarrow>
             state (run options p (FetchSettled r # es)) = (state p)\<lparr>isLoading := False\<rparr>)
          \<and> (ok resp \<and> (d = None \<or> d = Some JNull) \<longrightarrow>
             state (run options p (FetchSettled (Some resp) # JsonSettled d # es))
               = (state p)\<lparr>isLoading := False\<rparr>)
          \<and> (ok resp \<and> parseFlags data = Some (n, i, g) \<longrightarrow>
             state (run options p (FetchSettled (Some resp) # JsonSettled (Some data) # es))
               = \<lparr>isLoading = False, initialized = i, needsSetup = n,
                  registrationEnabled = g\<rparr>))"
proof (intro conjI impI)
  show "href (run options p es) = href p" by (rule run_no_redirect [OF assms])
next
  assume p: "phase p = AwaitingFetch \<and> \<not> isCancelled p"
    and f: "r = None \<or> (\<exists>resp. r = Some resp \<and> \<not> ok resp)"
  have c: "set [] \<subseteq> {Cleanup}" by simp
  from p have a: "phase p = AwaitingFetch" by simp
  from run_failed_fetch [OF a c f, of options es] p
  show "state (run options p (FetchSettled r # es)) = (state p)\<lparr>isLoading := False\<rparr>"
    by simp
next
  assume p: "phase p = AwaitingFetch \<and> \<not> isCancelled p"
    and j: "ok resp \<and> (d = None \<or> d = Some JNull)"
  have c: "set [] \<subseteq> {Cleanup}" by simp
  from p have a: "phase p = AwaitingFetch" by simp
  from j have o: "ok resp" and b: "d = None \<or> (\<exists>data. d = Some data \<and> parseFlags data = None)"
    by (auto simp: parseFlags_None_iff)
  from run_failed_json [OF a o c c b, of options es] p
  show "state (run options p (FetchSettled (Some resp) # JsonSettled d # es))
               = (state p)\<lparr>isLoading := False\<rparr>"
    by simp
next
  assume p: "phase p = AwaitingFetch \<and> \<not> isCancelled p"
    and j: "ok resp \<and> parseFlags data = Some (n, i, g)"
  have c: "set [] \<subseteq> {Cleanup}" by simp
  from p have a: "phase p = AwaitingFetch" by simp
  from j have o: "ok resp" and b: "parseFlags data = Some (n, i, g)" by simp_all
  from run_parsed [OF a o c c b, of options es] p assms
  show "state (run options p (FetchSettled (Some resp) # JsonSettled (Some data) # es))
               = \<lparr>isLoading = False, initialized = i, needsSetup = n,
                  registrationEnabled = g\<rparr>"
    by simp
qed

text \<open>
  The theorem for a call without options: a body with \<open>needs_setup: true\<close>, which would
  redirect the Register page, is published; a response that is not \<open>ok\<close> and a body that
  is not JSON stop the loading.
\<close>

theorem login_never_navigates_witness:
  "href (run noOptions mount
      [FetchSettled (Some \<lparr>ok = True\<rparr>),
       JsonSettled (Some (JObject [(''needs_setup'', JBool True)]))]) = []
   \<and> state (run noOptions mount
      [FetchSettled (Some \<lparr>ok = True\<rparr>),
       JsonSettled (Some (JObject [(''needs_setup'', JBool True)]))]) =
      \<lparr>isLoading = False, initialized = False, needsSetup = True, registrationEnabled = False\<rparr>
   \<and> state (run noOptions mount [FetchSettled (Some \<lparr>ok = False\<rparr>)]) =
      \<lparr>isLoading = False, initialized = False, needsSetup = False, registrationEnabled = True\<rparr>
   \<and> state (run noOptions mount [FetchSettled (Some \<lparr>ok = True\<rparr>), JsonSettled None]) =
      \<lparr>isLoading = False, initialized = False, needsSetup = False, registrationEnabled = True\<rparr>"
proof -
  let ?data = "JObject [(''needs_setup'', JBool True)]"
  have f: "orDefault False (redirectToSetupIfNeeded noOptions) = False"
    "orDefault False (redirectToLoginIfRegistrationClosed noOptions) = False"
    "orDefault False (redirectToLoginIfInitialized noOptions) = False"
    by (simp_all add: noOptions_def orDefault_def)
  have e: "parseFlags ?data = Some (True, False, False)" by (simp add: parseFlags_def)
  from login_never_navigates [OF f, where p = mount
      and es = "[FetchSettled (Some \<lparr>ok = True\<rparr>), JsonSettled (Some ?data)]"]
    login_never_navigates [OF f, where p = mount and es = "[]" and resp = "\<lparr>ok = True\<rparr>"
      and data = ?data and n = True and i = False and g = False and d = None
      and r = "Some \<lparr>ok = False\<rparr>"] e
  show ?thesis by (simp add: mount_def initialState_def)
qed

section \<open>The route gate\<close>

text \<open>
  C7. For every path, token and body, \<open>LayoutContent\<close> renders the body alone, with no
  application context and no sidebar, exactly when the path is a public auth path. For
  every other path it renders one application context holding a \<open>div\<close> of two regions,
  the sidebar and a \<open>main\<close> that hosts the body; the context is given the session token,
  or \<open>undefined\<close> when the token is \<open>null\<close> or empty.
\<close>

theorem LayoutContent_gate:
  "(LayoutContent pathname token children = Fragment [Children children]
      \<longleftrightarrow> isAuthPublicPath pathname)
   \<and> (providers (LayoutContent pathname token children) =
        (if isAuthPublicPath pathname then [] else [orUndefined token]))
   \<and> (sidebars (LayoutContent pathname token children) =
        (if isAuthPublicPath pathname then 0 else 1))
   \<and> (\<not> isAuthPublicPath pathname \<longrightarrow>
        (\<exists>c1 c2. LayoutContent pathname token children =
           AppProvider (orUndefined token)
             [Html ''div'' c1 [Sidebar, Html ''main'' c2 [Children children]]]))
   \<and> (orUndefined token =
        (case token of None \<Rightarrow> None | Some t \<Rightarrow> if t = [] then None else Some t))"
  by (simp add: LayoutContent_def orUndefined_def)

text \<open>
  The theorem at \<open>/login\<close> and \<open>/chat\<close> with a token, and at no path with no token.
\<close>

theorem LayoutContent_gate_witness:
  "LayoutContent (Some ''/login'') (Some ''tok'') (0::nat) = Fragment [Children 0]
   \<and> \<not> isAuthPublicPath (Some ''/chat'')
   \<and> providers (LayoutContent (Some ''/chat'') (Some ''tok'') (0::nat)) = [Some ''tok'']
   \<and> sidebars (LayoutContent (Some ''/chat'') (Some ''tok'') (0::nat)) = 1
   \<and> providers (LayoutContent None None (0::nat)) = [None]"
  using LayoutContent_gate [of "Some ''/login''" "Some ''tok''" "0::nat"]
    LayoutContent_gate [of "Some ''/chat''" "Some ''tok''" "0::nat"]
    LayoutContent_gate [of None None "0::nat"]
  by (simp add: isAuthPublicPath_def AUTH_PUBLIC_PATHS_def)

section \<open>The initial status\<close>

text \<open>
  C8. For every options value the status \<open>useSetupStatus\<close> first returns is
  \<open>isLoading = true\<close>, \<open>initialized = false\<close>, \<open>needsSetup = false\<close>,
  \<open>registrationEnabled = true\<close>, and it is still the status of the mounted activation
  after any number of cleanups, as long as the request has not settled.
\<close>

theorem initial_status:
  "useSetupStatus options =
     \<lparr>isLoading = True, initialized = False, needsSetup = False, registrationEnabled = True\<rparr>
   \<and> state (run options mount (replicate k Cleanup)) =
     \<lparr>isLoading = True, initialized = False, needsSetup = False, registrationEnabled = True\<rparr>"
proof -
  have "set (replicate k Cleanup) \<subseteq> {Cleanup}" by auto
  from run_Cleanups [OF this, of options mount]
  have "state (run options mount (replicate k Cleanup)) = state mount" by simp
  then show ?thesis by (simp add: useSetupStatus_def mount_def initialState_def)
qed

section \<open>Parsing the body\<close>

text \<open>
  C9. From a body that is a JSON object the probe reads \<open>needs_setup\<close>, \<open>initialized\<close>
  and \<open>registration_enabled\<close>, and a field that is not in the object gives false; a body
  that is a boolean, a number, a string or an array has none of the fields and gives
  false three times. On a successful response with no redirect requested and no
  cancellation, these are the flags published.
\<close>

theorem missing_fields_false:
  "parseFlags (JObject kvs) =
     Some (case map_of kvs ''needs_setup'' of None \<Rightarrow> False | Some v \<Rightarrow> Boolean v,
           case map_of kvs ''initialized'' of None \<Rightarrow> False | Some v \<Rightarrow> Boolean v,
           case map_of kvs ''registration_enabled'' of None \<Rightarrow> False | Some v \<Rightarrow> Boolean v)
   \<and> parseFlags (JBool b) = Some (False, False, False)
   \<and> parseFlags (JNumber x) = Some (False, False, False)
   \<and> parseFlags (JString s) = Some (False, False, False)
   \<and> parseFlags (JArray vs) = Some (False, False, False)
   \<and> (phase p = AwaitingFetch \<and> \<not> isCancelled p \<and> ok resp \<longrightarrow>
        state (run noOptions p (FetchSettled (Some resp) # JsonSettled (Some (JObject kvs)) # es)) =
          \<lparr>isLoading = False,
           initialized = (case map_of kvs ''initialized'' of None \<Rightarrow> False | Some v \<Rightarrow> Boolean v),
           needsSetup = (case map_of kvs ''needs_setup'' of None \<Rightarrow> False | Some v \<Rightarrow> Boolean v),
           registrationEnabled =
             (case map_of kvs ''registration_enabled'' of None \<Rightarrow> False | Some v \<Rightarrow> Boolean v)\<rparr>)"
proof (intro conjI impI)
  show "parseFlags (JObject kvs) =
     Some (case map_of kvs ''needs_setup'' of None \<Rightarrow> False | Some v \<Rightarrow> Boolean v,
           case map_of kvs ''initialized'' of None \<Rightarrow> False | Some v \<Rightarrow> Boolean v,
           case map_of kvs ''registration_enabled'' of None \<Rightarrow> False | Some v \<Rightarrow> Boolean v)"
    by (rule parseFlags_JObject)
next
  assume h: "phase p = AwaitingFetch \<and> \<not> isCancelled p \<and> ok resp"
  have c: "set [] \<subseteq> {Cleanup}" by simp
  from h have a: "phase p = AwaitingFetch" and o: "ok resp" by simp_all
  from run_parsed [OF a o c c parseFlags_JObject, where options = noOptions and es = es] h
  show "state (run noOptions p (FetchSettled (Some resp) # JsonSettled (Some (JObject kvs)) # es)) =
          \<lparr>isLoading = False,
           initialized = (case map_of kvs ''initialized'' of None \<Rightarrow> False | Some v \<Rightarrow> Boolean v),
           needsSetup = (case map_of kvs ''needs_setup'' of None \<Rightarrow> False | Some v \<Rightarrow> Boolean v),
           registrationEnabled =
             (case map_of kvs ''registration_enabled'' of None \<Rightarrow> False | Some v \<Rightarrow> Boolean v)\<rparr>"
    by (simp add: noOptions_def orDefault_def)
qed (simp_all add: parseFlags_def)

text \<open>
  The theorem at a body with \<open>initialized\<close> alone, and at the empty object.
\<close>

theorem missing_fields_false_witness:
  "parseFlags (JObject [(''initialized'', JBool True)]) = Some (False, True, False)
   \<and> parseFlags (JObject []) = Some (False, False, False)
   \<and> state (run noOptions mount
        [FetchSettled (Some \<lparr>ok = True\<rparr>),
         JsonSettled (Some (JObject [(''initialized'', JBool True)]))]) =
      \<lparr>isLoading = False, initialized = True, needsSetup = False, registrationEnabled = False\<rparr>"
  using missing_fields_false [where kvs = "[(''initialized'', JBool True)]" and p = mount
      and resp = "\<lparr>ok = True\<rparr>" and es = "[]"]
    missing_fields_false [where kvs = "[]"]
  by (simp add: mount_def)

text \<open>
  C10. On a successful response the probe acts on \<open>Boolean\<close> of the value of each of the
  three fields, whatever the type of that value (\<open>undefined\<close> for an absent field): for
  every options value and every body whose fields read as \<open>a\<close>, \<open>b\<close> and \<open>c\<close>, the
  redirect rules are decided by \<open>Boolean a\<close>, \<open>Boolean b\<close> and \<open>Boolean c\<close>, and these are
  the flags published when no rule matches and the activation is not cancelled.
  \<open>Boolean\<close> is false exactly on \<open>undefined\<close>, \<open>null\<close>, \<open>false\<close>, \<open>NaN\<close>, zero and the
  empty string, and true on every other value.
\<close>

theorem truthiness_coercion:
  assumes "phase p = AwaitingFetch" and "ok resp"
    and "set cs \<subseteq> {Cleanup}" and "set ds \<subseteq> {Cleanup}"
    and "getProperty data ''needs_setup'' = Some a"
    and "getProperty data ''initialized'' = Some b"
    and "getProperty data ''registration_enabled'' = Some c"
  shows "href (run options p (cs @ FetchSettled (Some resp) # ds @ JsonSettled (Some data) # es)) =
       href p @
        (if orDefault False (redirectToSetupIfNeeded options) \<and> Boolean a then [''/setup'']
         else if orDefault False (redirectToLoginIfRegistrationClosed options)
                 \<and> \<not> Boolean a \<and> \<not> Boolean c
           then [''/login'']
         else if orDefault False (redirectToLoginIfInitialized options) \<and> Boolean b \<and> \<not> Boolean a
           then [''/login'']
         else [])
     \<and> state (run options p (cs @ FetchSettled (Some resp) # ds @ JsonSettled (Some data) # es)) =
        (if (orDefault False (redirectToSetupIfNeeded options) \<and> Boolean a)
            \<or> (orDefault False (redirectToLoginIfRegistrationClosed options)
                \<and> \<not> Boolean a \<and> \<not> Boolean c)
            \<or> (orDefault False (redirectToLoginIfInitialized options) \<and> Boolean b \<and> \<not> Boolean a)
            \<or> isCancelled p \<or> cs \<noteq> [] \<or> ds \<noteq> []
         then state p
         else \<lparr>isLoading = False, initialized = Boolean b, needsSetup = Boolean a,
               registrationEnabled = Boolean c\<rparr>)
     \<and> (Boolean v \<longleftrightarrow>
          v \<noteq> JUndefined \<and> v \<noteq> JNull \<and> v \<noteq> JBool False \<and> v \<noteq> JNumber NaN
          \<and> v \<noteq> JNumber (Finite 0) \<and> v \<noteq> JString [])"
proof -
  from assms(5-7) have f: "parseFlags data = Some (Boolean a, Boolean b, Boolean c)"
    by (simp add: parseFlags_def)
  have t: "Boolean v \<longleftrightarrow>
        v \<noteq> JUndefined \<and> v \<noteq> JNull \<and> v \<noteq> JBool False \<and> v \<noteq> JNumber NaN
        \<and> v \<noteq> JNumber (Finite 0) \<and> v \<noteq> JString []"
  proof (cases v)
    case (JNumber x)
    then show ?thesis by (cases x) auto
  qed auto
  from run_parsed [OF assms(1-4) f, of options es] t show ?thesis by blast
qed

text \<open>
  The theorem from a mount. On the Register page the body \<open>{needs_setup: "false"}\<close>
  redirects to \<open>/setup\<close>, the string being truthy. Without options, the string \<open>false\<close>
  and the number 1 are published as true and the number 0 as false; the empty string,
  \<open>null\<close> and an absent field are published as false.
\<close>

theorem truthiness_coercion_witness:
  "href (run registerPageOptions mount
      [FetchSettled (Some \<lparr>ok = True\<rparr>),
       JsonSettled (Some (JObject [(''needs_setup'', JString ''false'')]))]) = [''/setup'']
   \<and> href (run noOptions mount
      [FetchSettled (Some \<lparr>ok = True\<rparr>),
       JsonSettled (Some (JObject [(''needs_setup'', JString ''false''),
          (''initialized'', JNumber (Finite 1)), (''registration_enabled'', JNumber (Finite 0))]))])
      = []
   \<and> state (run noOptions mount
      [FetchSettled (Some \<lparr>ok = True\<rparr>),
       JsonSettled (Some (JObject [(''needs_setup'', JString ''false''),
          (''initialized'', JNumber (Finite 1)), (''registration_enabled'', JNumber (Finite 0))]))])
      = \<lparr>isLoading = False, initialized = True, needsSetup = True, registrationEnabled = False\<rparr>
   \<and> state (run noOptions mount
      [FetchSettled (Some \<lparr>ok = True\<rparr>),
       JsonSettled (Some (JObject [(''needs_setup'', JString []), (''initialized'', JNull)]))])
      = \<lparr>isLoading = False, initialized = False, needsSetup = False, registrationEnabled = False\<rparr>"
proof -
  let ?s = "JObject [(''needs_setup'', JString ''false'')]"
  let ?t = "JObject [(''needs_setup'', JString ''false''),
          (''initialized'', JNumber (Finite 1)), (''registration_enabled'', JNumber (Finite 0))]"
  let ?u = "JObject [(''needs_setup'', JString []), (''initialized'', JNull)]"
  have m: "phase mount = AwaitingFetch" by (simp add: mount_def)
  have o: "ok \<lparr>ok = True\<rparr>" by simp
  have e: "set [] \<subseteq> {Cleanup}" by simp
  have s: "getProperty ?s ''needs_setup'' = Some (JString ''false'')"
    "getProperty ?s ''initialized'' = Some JUndefined"
    "getProperty ?s ''registration_enabled'' = Some JUndefined" by simp_all
  have t: "getProperty ?t ''needs_setup'' = Some (JString ''false'')"
    "getProperty ?t ''initialized'' = Some (JNumber (Finite 1))"
    "getProperty ?t ''registration_enabled'' = Some (JNumber (Finite 0))" by simp_all
  have u: "getProperty ?u ''needs_setup'' = Some (JString [])"
    "getProperty ?u ''initialized'' = Some JNull"
    "getProperty ?u ''registration_enabled'' = Some JUndefined" by simp_all
  from truthiness_coercion [OF m o e e s, where options = registerPageOptions and es = "[]"]
    truthiness_coercion [OF m o e e t, where options = noOptions and es = "[]"]
    truthiness_coercion [OF m o e e u, where options = noOptions and es = "[]"]
  show ?thesis
    by (simp add: mount_def registerPageOptions_def noOptions_def orDefault_def)
qed

end
